theory Spec2Isabelle
  imports Complex_Main
begin

section \<open>Avatar locomotion: \<^verbatim>\<open>HabboAvatarSprite.ts\<close>\<close>

text \<open>
  The numbers of the source are JavaScript numbers. Positions, times and screen coordinates
  are modelled as \<^typ>\<open>real\<close>; the heading and the two frame counters only ever hold
  small whole numbers and are modelled as \<^typ>\<open>nat\<close>. Rounding error of the double
  format is outside the model.

  \<^verbatim>\<open>Vector3\<close> is imported by the source from \<^verbatim>\<open>../data/types/Vector3\<close>; only its three
  coordinates are used. The fields are called \<open>vec_x\<close>, \<open>vec_y\<close>, \<open>vec_z\<close> here, because a
  record field named \<open>x\<close> would capture every variable of that name.
\<close>

record Vector3 =
  vec_x :: real
  vec_y :: real
  vec_z :: real

definition Vec3 :: "real \<Rightarrow> real \<Rightarrow> real \<Rightarrow> Vector3" where
  \<comment> \<open>\<^verbatim>\<open>new Vector3(a, b, c)\<close>, also the result of \<^verbatim>\<open>position.set(a, b, c)\<close>\<close>
  "Vec3 a b c = \<lparr>vec_x = a, vec_y = b, vec_z = c\<rparr>"

definition Math_round :: "real \<Rightarrow> real" where
  \<comment> \<open>\<^verbatim>\<open>Math.round\<close>: the nearest integer, a tie going towards \<open>+\<infinity>\<close>\<close>
  "Math_round v = of_int \<lfloor>v + 1 / 2\<rfloor>"

definition Math_floor :: "real \<Rightarrow> real" where
  "Math_floor v = of_int \<lfloor>v\<rfloor>"

text \<open>
  The locomotion fields of the class, in the order of their declaration, followed by the
  position of the Phaser container that \<^verbatim>\<open>updateScreenPosition\<close> sets. The sprites and
  the frame names chosen by \<^verbatim>\<open>updateSprite\<close> are presentation only: \<^verbatim>\<open>updateSprite\<close>
  reads the locomotion fields and writes none of them, so its calls are left out.
\<close>

record HabboAvatarSprite =
  position :: Vector3
  direction :: nat
  isWalking :: bool
  currentPath :: "Vector3 list"
  currentTarget :: "Vector3 option"
  moveStartTime :: real
  moveStartPos :: Vector3
  frameCounter :: nat
  frameUpdateCounter :: nat
  containerX :: real
  containerY :: real

text \<open>
  \<^verbatim>\<open>moveDuration\<close> and \<^verbatim>\<open>frameUpdateInterval\<close> are private fields with an initialiser
  and no assignment anywhere in the class: they are constants.
\<close>

definition moveDuration :: real where
  "moveDuration = 500"

definition frameUpdateInterval :: nat where
  "frameUpdateInterval = 3"

text \<open>
  Modelled from the spec: \<^verbatim>\<open>IsometricEngine.tileToScreen\<close> is imported from
  \<^verbatim>\<open>../engine/IsometricEngine\<close>, which is not among the sources. The projection is the one
  the specification describes (a unit of tile x moves the screen point by \<open>(+32, +16)\<close>, a
  unit of tile y by \<open>(-32, +16)\<close>, a unit of height by 32 pixels upwards), with the origin
  of the inline formula in \<^verbatim>\<open>createDoorMaskGraphics\<close>.
\<close>

definition tileToScreen :: "real \<Rightarrow> real \<Rightarrow> real \<Rightarrow> real \<times> real" where
  "tileToScreen tx ty tz = (32 * tx - 32 * ty, 16 * tx + 16 * ty - 32 * tz)"

definition updateScreenPosition :: "HabboAvatarSprite \<Rightarrow> HabboAvatarSprite" where
  "updateScreenPosition s =
     (let baseTileCorner = tileToScreen (Math_floor (vec_x (position s)))
                                        (Math_floor (vec_y (position s)))
                                        (vec_z (position s));
          fracX = vec_x (position s) - Math_floor (vec_x (position s));
          fracY = vec_y (position s) - Math_floor (vec_y (position s));
          screenPos = (fst baseTileCorner + 32 + (fracX - fracY) * 32,
                       snd baseTileCorner + (fracX + fracY) * 16);
          isFlipped = (direction s = 4 \<or> direction s = 5 \<or> direction s = 6);
          MANUAL_OFFSET_X = (if isFlipped then 30 else - 35);
          MANUAL_OFFSET_Y = 0
      in s\<lparr>containerX := fst screenPos + MANUAL_OFFSET_X,
            containerY := snd screenPos + MANUAL_OFFSET_Y\<rparr>)"

definition new_avatar :: "real \<Rightarrow> real \<Rightarrow> real \<Rightarrow> HabboAvatarSprite" where
  \<comment> \<open>the constructor: the field initialisers, then \<^verbatim>\<open>updateScreenPosition\<close>\<close>
  "new_avatar startX startY startZ =
     updateScreenPosition
       \<lparr>position = Vec3 startX startY startZ, direction = 2, isWalking = False,
        currentPath = [], currentTarget = None, moveStartTime = 0,
        moveStartPos = Vec3 0 0 0, frameCounter = 0, frameUpdateCounter = 0,
        containerX = 0, containerY = 0\<rparr>"

definition calculateDirection :: "HabboAvatarSprite \<Rightarrow> Vector3 \<Rightarrow> Vector3 \<Rightarrow> nat" where
  "calculateDirection s from to =
     (let dx = vec_x to - vec_x from;
          dy = vec_y to - vec_y from
      in if dx = 0 \<and> dy < 0 then 0
         else if dx > 0 \<and> dy < 0 then 1
         else if dx > 0 \<and> dy = 0 then 2
         else if dx > 0 \<and> dy > 0 then 3
         else if dx = 0 \<and> dy > 0 then 4
         else if dx < 0 \<and> dy > 0 then 5
         else if dx < 0 \<and> dy = 0 then 6
         else if dx < 0 \<and> dy < 0 then 7
         else direction s)"

definition setDirection :: "HabboAvatarSprite \<Rightarrow> nat \<Rightarrow> HabboAvatarSprite" where
  "setDirection s newDirection =
     (if direction s \<noteq> newDirection then s\<lparr>direction := newDirection\<rparr> else s)"

text \<open>
  \<^verbatim>\<open>Date.now()\<close> is the only input of \<^verbatim>\<open>walkTo\<close> and \<^verbatim>\<open>update\<close> besides their
  arguments; its reading is the parameter \<open>now\<close>. The parameters \<^verbatim>\<open>_time\<close> and
  \<^verbatim>\<open>_delta\<close> of \<^verbatim>\<open>update\<close> are never read and are dropped.
\<close>

definition walkTo :: "HabboAvatarSprite \<Rightarrow> Vector3 list \<Rightarrow> real \<Rightarrow> HabboAvatarSprite" where
  "walkTo s path now =
     (if path = [] then s
      else
        let s1 = (if isWalking s
                  then s\<lparr>position := Vec3 (Math_round (vec_x (position s)))
                                          (Math_round (vec_y (position s)))
                                          (vec_z (position s))\<rparr>
                  else s);
            copied = map (\<lambda>p. Vec3 (vec_x p) (vec_y p) (vec_z p)) path;
            s2 = (case copied of
                    [] \<Rightarrow> s1\<lparr>currentPath := [], currentTarget := None\<rparr>
                  | p # ps \<Rightarrow> s1\<lparr>currentPath := ps, currentTarget := Some p\<rparr>)
        in case currentTarget s2 of
             None \<Rightarrow> s2
           | Some target \<Rightarrow>
               let s3 = s2\<lparr>isWalking := True, frameCounter := 0, frameUpdateCounter := 0\<rparr>;
                   dir = calculateDirection s3 (position s3) target;
                   s4 = setDirection s3 dir
               in s4\<lparr>moveStartTime := now, moveStartPos := position s4\<rparr>)"

definition stop :: "HabboAvatarSprite \<Rightarrow> HabboAvatarSprite" where
  "stop s = s\<lparr>isWalking := False, currentPath := [], currentTarget := None,
              frameCounter := 0, frameUpdateCounter := 0\<rparr>"

definition update :: "HabboAvatarSprite \<Rightarrow> real \<Rightarrow> HabboAvatarSprite" where
  "update s now =
     (case currentTarget s of
        None \<Rightarrow> s
      | Some target \<Rightarrow>
          if \<not> isWalking s then s
          else
            let elapsed = now - moveStartTime s;
                progress = min (elapsed / moveDuration) 1
            in updateScreenPosition
                 (if progress \<ge> 1 then
                    let s1 = s\<lparr>position := Vec3 (vec_x target) (vec_y target) (vec_z target)\<rparr>
                    in (case currentPath s1 of
                          nxt # rest \<Rightarrow>
                            let s2 = s1\<lparr>currentTarget := Some nxt, currentPath := rest\<rparr>;
                                dir = calculateDirection s2 (position s2) nxt;
                                s3 = setDirection s2 dir
                            in s3\<lparr>moveStartTime := now, moveStartPos := position s3,
                                  frameCounter := 0, frameUpdateCounter := 0\<rparr>
                        | [] \<Rightarrow> stop s1)
                  else
                    let s1 = s\<lparr>position :=
                                 Vec3 (vec_x (moveStartPos s)
                                         + (vec_x target - vec_x (moveStartPos s)) * progress)
                                      (vec_y (moveStartPos s)
                                         + (vec_y target - vec_y (moveStartPos s)) * progress)
                                      (vec_z (moveStartPos s)
                                         + (vec_z target - vec_z (moveStartPos s)) * progress)\<rparr>;
                        s2 = s1\<lparr>frameUpdateCounter := frameUpdateCounter s1 + 1\<rparr>
                    in if frameUpdateCounter s2 \<ge> frameUpdateInterval
                       then s2\<lparr>frameUpdateCounter := 0,
                               frameCounter := (frameCounter s2 + 1) mod 4\<rparr>
                       else s2))"

definition isMoving :: "HabboAvatarSprite \<Rightarrow> bool" where
  "isMoving s = isWalking s"

definition getPosition :: "HabboAvatarSprite \<Rightarrow> Vector3" where
  "getPosition s = position s"

text \<open>A sequence of \<^verbatim>\<open>update\<close> calls, one for each clock reading of the list.\<close>

fun updates :: "HabboAvatarSprite \<Rightarrow> real list \<Rightarrow> HabboAvatarSprite" where
  "updates s [] = s"
| "updates s (now # nows) = updates (update s now) nows"

text \<open>
  The number of legs that come to their end in a sequence of clock readings, the first leg
  timed from \<open>start\<close>: a leg ends at the first reading at which its elapsed time has
  reached \<open>moveDuration\<close>, and the next leg is timed from that reading.
\<close>

fun legs_completed :: "real \<Rightarrow> real list \<Rightarrow> nat" where
  "legs_completed start [] = 0"
| "legs_completed start (now # nows) =
     (if moveDuration \<le> now - start then Suc (legs_completed now nows)
      else legs_completed start nows)"

text \<open>
  The heading convention of the specification, 0 = N, 1 = NE, 2 = E, 3 = SE, 4 = S, 5 = SW,
  6 = W, 7 = NW, as a table from the signs of the delta: east is increasing x, north is
  decreasing y, and a zero delta has no heading.
\<close>

definition spec_heading :: "real \<Rightarrow> real \<Rightarrow> nat option" where
  "spec_heading sx sy =
     (if sx = 0 \<and> sy = - 1 then Some 0
      else if sx = 1 \<and> sy = - 1 then Some 1
      else if sx = 1 \<and> sy = 0 then Some 2
      else if sx = 1 \<and> sy = 1 then Some 3
      else if sx = 0 \<and> sy = 1 then Some 4
      else if sx = - 1 \<and> sy = 1 then Some 5
      else if sx = - 1 \<and> sy = 0 then Some 6
      else if sx = - 1 \<and> sy = - 1 then Some 7
      else None)"

text \<open>
  The direct projection of a continuous position, with no decomposition into a whole tile
  and a fractional offset; \<open>c\<close> is the horizontal offset of the container.
\<close>

definition direct_projection :: "real \<Rightarrow> real \<Rightarrow> real \<Rightarrow> real \<Rightarrow> real \<times> real" where
  "direct_projection c px py pz = (32 * px - 32 * py + 32 + c, 16 * px + 16 * py - 32 * pz)"

section \<open>Floorplan editor: \<^verbatim>\<open>FloorplanScene.ts\<close>\<close>

text \<open>
  \<^verbatim>\<open>FloorAction\<close>, \<^verbatim>\<open>Tile\<close> and \<^verbatim>\<open>RoomData\<close> are imported by the source; their
  members are the ones the scene uses. Of \<^verbatim>\<open>RoomData\<close> the fields the editor reads or
  writes are kept. The fields of a tile are called \<open>tile_x\<close> and \<open>tile_y\<close>. Heights are
  whole numbers, grid coordinates are indices into the rows of \<open>tiles\<close>.
\<close>

datatype FloorAction = SET | UNSET | UP | DOWN | DOOR

datatype js_error = TypeError

record Tile =
  tile_x :: nat
  tile_y :: nat
  height :: int
  isBlocked :: bool
  walkable :: bool

record RoomData =
  minX :: nat
  maxX :: nat
  minY :: nat
  maxY :: nat
  maxHeight :: int
  doorTile :: "(nat \<times> nat) option"
  tiles :: "Tile list list"

record FloorplanConfig =
  currentAction :: FloorAction
  currentHeight :: int
  doorDirection :: nat

record FloorplanScene =
  roomData :: RoomData
  config :: FloorplanConfig
  isHolding :: bool
  lastUsedTile :: "int \<times> int"

definition MAX_TILES :: nat where
  "MAX_TILES = 64"

definition createEmptyRoom :: RoomData where
  "createEmptyRoom =
     \<lparr>minX = 0, maxX = MAX_TILES - 1, minY = 0, maxY = MAX_TILES - 1, maxHeight = 0,
      doorTile = None,
      tiles = map (\<lambda>y. map (\<lambda>x. \<lparr>tile_x = x, tile_y = y, height = 0,
                                    isBlocked = False, walkable = False\<rparr>)
                             [0..<MAX_TILES])
                  [0..<MAX_TILES]\<rparr>"

definition new_scene :: FloorplanScene where
  "new_scene =
     \<lparr>roomData = createEmptyRoom,
      config = \<lparr>currentAction = SET, currentHeight = 0, doorDirection = 2\<rparr>,
      isHolding = False, lastUsedTile = (- 1, - 1)\<rparr>"

definition updateConfig :: "FloorplanScene \<Rightarrow> FloorAction option \<Rightarrow> int option \<Rightarrow> nat option
    \<Rightarrow> FloorplanScene" where
  \<comment> \<open>the argument is a partial configuration: an absent member keeps the old value\<close>
  "updateConfig s action h dir =
     s\<lparr>config :=
         \<lparr>currentAction = (case action of None \<Rightarrow> currentAction (config s) | Some a \<Rightarrow> a),
          currentHeight = (case h of None \<Rightarrow> currentHeight (config s) | Some v \<Rightarrow> v),
          doorDirection = (case dir of None \<Rightarrow> doorDirection (config s) | Some d \<Rightarrow> d)\<rparr>\<rparr>"

text \<open>
  \<^verbatim>\<open>this.roomData.tiles[gridY][gridX]\<close>: a row index out of range reads a member of
  \<^verbatim>\<open>undefined\<close>, and a column index out of range yields \<^verbatim>\<open>undefined\<close>, whose member
  every branch of \<^verbatim>\<open>onClick\<close> reads first. Both raise a \<^verbatim>\<open>TypeError\<close> before anything is
  written.
\<close>

definition tileAt :: "RoomData \<Rightarrow> nat \<Rightarrow> nat \<Rightarrow> Tile option" where
  "tileAt rd gridX gridY =
     (if gridY < length (tiles rd) \<and> gridX < length (tiles rd ! gridY)
      then Some (tiles rd ! gridY ! gridX) else None)"

definition setTile :: "RoomData \<Rightarrow> nat \<Rightarrow> nat \<Rightarrow> Tile \<Rightarrow> RoomData" where
  \<comment> \<open>the write through the reference \<^verbatim>\<open>tile\<close> into the grid\<close>
  "setTile rd gridX gridY t = rd\<lparr>tiles := (tiles rd)[gridY := (tiles rd ! gridY)[gridX := t]]\<rparr>"

text \<open>\<^verbatim>\<open>renderGrid\<close> draws the grid and writes no field of the room; it is left out.\<close>

definition onClick :: "FloorplanScene \<Rightarrow> nat \<Rightarrow> nat \<Rightarrow> js_error + FloorplanScene" where
  "onClick s gridX gridY =
     (case tileAt (roomData s) gridX gridY of
        None \<Rightarrow> Inl TypeError
      | Some tile \<Rightarrow>
          Inr (case currentAction (config s) of
                 SET \<Rightarrow>
                   s\<lparr>roomData := setTile (roomData s) gridX gridY
                        (tile\<lparr>walkable := True, height := currentHeight (config s)\<rparr>)\<rparr>
               | UNSET \<Rightarrow>
                   s\<lparr>roomData := setTile (roomData s) gridX gridY
                        (tile\<lparr>walkable := False, height := 0\<rparr>)\<rparr>
               | UP \<Rightarrow>
                   if walkable tile \<and> height tile < 9
                   then s\<lparr>roomData := setTile (roomData s) gridX gridY
                             (tile\<lparr>height := height tile + 1\<rparr>)\<rparr>
                   else s
               | DOWN \<Rightarrow>
                   if walkable tile \<and> height tile > 0
                   then s\<lparr>roomData := setTile (roomData s) gridX gridY
                             (tile\<lparr>height := height tile - 1\<rparr>)\<rparr>
                   else s
               | DOOR \<Rightarrow>
                   if walkable tile
                   then s\<lparr>roomData := (roomData s)\<lparr>doorTile := Some (gridX, gridY)\<rparr>\<rparr>
                   else s))"

definition offsetX :: real where
  "offsetX = 450"

definition offsetY :: real where
  "offsetY = 150"

definition processTileAction :: "FloorplanScene \<Rightarrow> real \<Rightarrow> real \<Rightarrow> js_error + FloorplanScene" where
  \<comment> \<open>the two reals are \<^verbatim>\<open>pointer.x\<close> and \<^verbatim>\<open>pointer.y\<close>\<close>
  "processTileAction s pointerX pointerY =
     (let screenX = pointerX - offsetX;
          screenY = pointerY - offsetY;
          localX = \<lfloor>screenX / 64 + screenY / 32\<rfloor>;
          localY = \<lfloor>screenY / 32 - screenX / 64\<rfloor>;
          gridX = max 0 (min localX (int (maxX (roomData s))));
          gridY = max 0 (min localY (int (maxY (roomData s))))
      in if lastUsedTile s = (gridX, gridY) then Inr s
         else onClick (s\<lparr>lastUsedTile := (gridX, gridY)\<rparr>) (nat gridX) (nat gridY))"

definition handlePointerDown :: "FloorplanScene \<Rightarrow> real \<Rightarrow> real \<Rightarrow> js_error + FloorplanScene" where
  "handlePointerDown s pointerX pointerY = processTileAction (s\<lparr>isHolding := True\<rparr>) pointerX pointerY"

definition handlePointerUp :: "FloorplanScene \<Rightarrow> FloorplanScene" where
  "handlePointerUp s = s\<lparr>isHolding := False, lastUsedTile := (- 1, - 1)\<rparr>"

text \<open>
  One gesture of the user of the editor: choose a tool, press the pointer at a point of the
  canvas and release it. A \<^verbatim>\<open>TypeError\<close> of an earlier gesture is kept.
\<close>

definition press :: "js_error + FloorplanScene \<Rightarrow> FloorAction \<Rightarrow> real \<Rightarrow> real
    \<Rightarrow> js_error + FloorplanScene" where
  "press r action pointerX pointerY =
     (case r of
        Inl e \<Rightarrow> Inl e
      | Inr s \<Rightarrow>
          (case handlePointerDown (updateConfig s (Some action) None None) pointerX pointerY of
             Inl e \<Rightarrow> Inl e
           | Inr s' \<Rightarrow> Inr (handlePointerUp s')))"

text \<open>The two invariants of the room grid that the specification states.\<close>

definition door_ok :: "RoomData \<Rightarrow> bool" where
  \<comment> \<open>the door tile, when present, is a tile of the grid and walkable\<close>
  "door_ok rd =
     (case doorTile rd of
        None \<Rightarrow> True
      | Some (doorX, doorY) \<Rightarrow>
          (case tileAt rd doorX doorY of None \<Rightarrow> False | Some t \<Rightarrow> walkable t))"

definition heights_ok :: "RoomData \<Rightarrow> bool" where
  \<comment> \<open>every tile has a height from 0 to 9\<close>
  "heights_ok rd = list_all (list_all (\<lambda>t. 0 \<le> height t \<and> height t \<le> 9)) (tiles rd)"

section \<open>Results\<close>

lemma Vec3_eta [simp]: "Vec3 (vec_x p) (vec_y p) (vec_z p) = p"
  by (simp add: Vec3_def)

lemma Vec3_sel [simp]:
  "vec_x (Vec3 a b c) = a" "vec_y (Vec3 a b c) = b" "vec_z (Vec3 a b c) = c"
  by (simp_all add: Vec3_def)

subsection \<open>The steps of the locomotion state machine\<close>

lemma update_idle: "\<not> isWalking s \<Longrightarrow> update s now = s"
  by (simp add: update_def split: option.splits)

lemma updates_idle: "\<not> isWalking s \<Longrightarrow> updates s nows = s"
  by (induction nows) (simp_all add: update_idle)

lemma usp_fields [simp]:
  "position (updateScreenPosition s) = position s"
  "direction (updateScreenPosition s) = direction s"
  "isWalking (updateScreenPosition s) = isWalking s"
  "currentPath (updateScreenPosition s) = currentPath s"
  "currentTarget (updateScreenPosition s) = currentTarget s"
  "moveStartTime (updateScreenPosition s) = moveStartTime s"
  "moveStartPos (updateScreenPosition s) = moveStartPos s"
  "frameCounter (updateScreenPosition s) = frameCounter s"
  "frameUpdateCounter (updateScreenPosition s) = frameUpdateCounter s"
  by (simp_all add: updateScreenPosition_def Let_def)

lemma setDirection_fields [simp]:
  "position (setDirection s d) = position s"
  "direction (setDirection s d) = d"
  "isWalking (setDirection s d) = isWalking s"
  "currentPath (setDirection s d) = currentPath s"
  "currentTarget (setDirection s d) = currentTarget s"
  "moveStartTime (setDirection s d) = moveStartTime s"
  "moveStartPos (setDirection s d) = moveStartPos s"
  "frameCounter (setDirection s d) = frameCounter s"
  "frameUpdateCounter (setDirection s d) = frameUpdateCounter s"
  by (simp_all add: setDirection_def)

lemma progress_done: "moveDuration \<le> e \<Longrightarrow> 1 \<le> min (e / moveDuration) 1"
  by (simp add: moveDuration_def)

lemma progress_open: "e < moveDuration \<Longrightarrow> \<not> 1 \<le> min (e / moveDuration) 1"
  "e < moveDuration \<Longrightarrow> min (e / moveDuration) 1 = e / moveDuration"
  by (simp_all add: moveDuration_def)

lemma update_complete_more:
  assumes "isWalking s" "currentTarget s = Some t" "currentPath s = n # rest"
    "moveDuration \<le> now - moveStartTime s"
  shows "position (update s now) = t" "isWalking (update s now)"
    "currentTarget (update s now) = Some n" "currentPath (update s now) = rest"
    "moveStartTime (update s now) = now" "moveStartPos (update s now) = t"
    "frameCounter (update s now) = 0" "frameUpdateCounter (update s now) = 0"
  using assms progress_done [OF assms(4)]
  by (simp_all add: update_def Let_def)

lemma update_complete_last:
  assumes "isWalking s" "currentTarget s = Some t" "currentPath s = []"
    "moveDuration \<le> now - moveStartTime s"
  shows "position (update s now) = t" "\<not> isWalking (update s now)"
    "currentTarget (update s now) = None" "currentPath (update s now) = []"
    "frameCounter (update s now) = 0" "frameUpdateCounter (update s now) = 0"
  using assms progress_done [OF assms(4)]
  by (simp_all add: update_def Let_def stop_def)

lemma update_interp:
  assumes "isWalking s" "currentTarget s = Some t" "now - moveStartTime s < moveDuration"
  shows "isWalking (update s now)" "currentTarget (update s now) = Some t"
    "currentPath (update s now) = currentPath s"
    "moveStartTime (update s now) = moveStartTime s"
    "moveStartPos (update s now) = moveStartPos s"
    "direction (update s now) = direction s"
    "position (update s now) =
       Vec3 (vec_x (moveStartPos s) + (vec_x t - vec_x (moveStartPos s)) * ((now - moveStartTime s) / moveDuration))
            (vec_y (moveStartPos s) + (vec_y t - vec_y (moveStartPos s)) * ((now - moveStartTime s) / moveDuration))
            (vec_z (moveStartPos s) + (vec_z t - vec_z (moveStartPos s)) * ((now - moveStartTime s) / moveDuration))"
    "frameUpdateCounter (update s now) =
       (if frameUpdateCounter s + 1 \<ge> frameUpdateInterval then 0 else frameUpdateCounter s + 1)"
    "frameCounter (update s now) =
       (if frameUpdateCounter s + 1 \<ge> frameUpdateInterval then (frameCounter s + 1) mod 4 else frameCounter s)"
  using assms progress_open [OF assms(3)]
  by (simp_all add: update_def Let_def)

lemma updates_arrival:
  "isWalking s \<Longrightarrow> currentTarget s = Some t \<Longrightarrow>
   length (currentPath s) < legs_completed (moveStartTime s) nows \<Longrightarrow>
   \<not> isWalking (updates s nows) \<and> position (updates s nows) = last (t # currentPath s)"
proof (induction nows arbitrary: s t)
  case Nil
  then show ?case by simp
next
  case (Cons now nows)
  show ?case
  proof (cases "moveDuration \<le> now - moveStartTime s")
    case fin: True
    show ?thesis
    proof (cases "currentPath s")
      case Nil
      from update_complete_last [OF Cons.prems(1,2) Nil fin]
      show ?thesis using Nil by (simp add: updates_idle)
    next
      case (Cons n rest)
      note u = update_complete_more [OF Cons.prems(1,2) Cons fin]
      from Cons.prems(3) fin Cons
      have "length (currentPath (update s now)) < legs_completed (moveStartTime (update s now)) nows"
        by (simp add: u)
      from Cons.IH [OF u(2) u(3) this] show ?thesis
        using Cons by (simp add: u)
    qed
  next
    case False
    then have open_leg: "now - moveStartTime s < moveDuration" by simp
    note u = update_interp [OF Cons.prems(1,2) open_leg]
    from Cons.prems(3) False
    have "length (currentPath (update s now)) < legs_completed (moveStartTime (update s now)) nows"
      by (simp add: u)
    from Cons.IH [OF u(1) u(2) this] show ?thesis
      by (simp add: u)
  qed
qed

lemma walkTo_start:
  assumes "path = p # ps"
  shows "isWalking (walkTo s path now)" "currentTarget (walkTo s path now) = Some p"
    "currentPath (walkTo s path now) = ps" "moveStartTime (walkTo s path now) = now"
    "frameCounter (walkTo s path now) = 0" "frameUpdateCounter (walkTo s path now) = 0"
  using assms by (simp_all add: walkTo_def Let_def)

lemma cadence_wrap_mod: "(2 + Suc n) mod 3 = n mod 3"
proof -
  have "2 + Suc n = n + 3" by simp
  then show ?thesis by (simp only: mod_add_self2)
qed

lemma cadence_wrap_div: "(f + (2 + Suc n) div 3) mod 4 = ((f + 1) mod 4 + n div 3) mod (4::nat)"
proof -
  have "2 + Suc n = n + 3" by simp
  then have "(2 + Suc n) div 3 = Suc (n div 3)" by (simp only: div_add_self2)
  then have "f + (2 + Suc n) div 3 = (f + 1) + n div 3" by simp
  then show ?thesis by (simp only: mod_add_left_eq)
qed

lemma updates_cadence:
  "isWalking s \<Longrightarrow> currentTarget s = Some t \<Longrightarrow> frameUpdateCounter s < frameUpdateInterval \<Longrightarrow>
   frameCounter s < 4 \<Longrightarrow> \<forall>now\<in>set nows. now - moveStartTime s < moveDuration \<Longrightarrow>
   frameUpdateCounter (updates s nows) = (frameUpdateCounter s + length nows) mod 3
   \<and> frameCounter (updates s nows) = (frameCounter s + (frameUpdateCounter s + length nows) div 3) mod 4"
proof (induction nows arbitrary: s)
  case Nil
  then show ?case by (simp add: frameUpdateInterval_def)
next
  case (Cons now nows)
  from Cons.prems(5) have open_leg: "now - moveStartTime s < moveDuration" by simp
  note u = update_interp [OF Cons.prems(1,2) open_leg]
  have a: "frameUpdateCounter (update s now) < frameUpdateInterval"
    by (simp add: u frameUpdateInterval_def)
  have b: "frameCounter (update s now) < 4"
    using Cons.prems(4) by (simp add: u)
  have c: "\<forall>t\<in>set nows. t - moveStartTime (update s now) < moveDuration"
    using Cons.prems(5) by (simp add: u)
  note ih = Cons.IH [OF u(1) u(2) a b c]
  show ?case
  proof (cases "frameUpdateCounter s = 2")
    case True
    have "(2 + Suc (length nows)) mod 3 = length nows mod 3"
      by (rule cadence_wrap_mod)
    moreover have "(frameCounter s + (2 + Suc (length nows)) div 3) mod 4
        = ((frameCounter s + 1) mod 4 + length nows div 3) mod 4"
      by (rule cadence_wrap_div)
    ultimately show ?thesis
      using ih True by (simp add: u frameUpdateInterval_def)
  next
    case False
    with Cons.prems(3) have "frameUpdateCounter s < 2"
      by (simp add: frameUpdateInterval_def)
    then show ?thesis
      using ih by (simp add: u frameUpdateInterval_def)
  qed
qed

lemma walkTo_snap:
  assumes "path \<noteq> []" "isWalking s"
  shows "position (walkTo s path now) =
           Vec3 (Math_round (vec_x (position s))) (Math_round (vec_y (position s))) (vec_z (position s))"
    "moveStartPos (walkTo s path now) = position (walkTo s path now)"
    "direction (walkTo s path now) = calculateDirection s (position (walkTo s path now)) (hd path)"
proof -
  from assms(1) obtain p ps where path: "path = p # ps" by (cases path) auto
  show "position (walkTo s path now) =
           Vec3 (Math_round (vec_x (position s))) (Math_round (vec_y (position s))) (vec_z (position s))"
    using assms(2) by (simp add: path walkTo_def Let_def)
  show "moveStartPos (walkTo s path now) = position (walkTo s path now)"
    by (simp add: path walkTo_def Let_def)
  show "direction (walkTo s path now) = calculateDirection s (position (walkTo s path now)) (hd path)"
    using assms(2) by (simp add: path walkTo_def Let_def calculateDirection_def)
qed

lemma walkTo_no_snap:
  assumes "path \<noteq> []" "\<not> isWalking s"
  shows "position (walkTo s path now) = position s"
    "moveStartPos (walkTo s path now) = position s"
    "direction (walkTo s path now) = calculateDirection s (position s) (hd path)"
proof -
  from assms(1) obtain p ps where path: "path = p # ps" by (cases path) auto
  show "position (walkTo s path now) = position s"
    using assms(2) by (simp add: path walkTo_def Let_def)
  show "moveStartPos (walkTo s path now) = position s"
    using assms(2) by (simp add: path walkTo_def Let_def)
  show "direction (walkTo s path now) = calculateDirection s (position s) (hd path)"
    using assms(2) by (simp add: path walkTo_def Let_def calculateDirection_def)
qed

lemma mid_leg_state: "position (update (walkTo (new_avatar 2 5 0) [Vec3 3 4 0] 0) 150) = Vec3 (23 / 10) (47 / 10) 0"
  "isWalking (update (walkTo (new_avatar 2 5 0) [Vec3 3 4 0] 0) 150)"
  by (simp_all add: update_def walkTo_def new_avatar_def Let_def moveDuration_def Vec3_def frameUpdateInterval_def
      calculateDirection_def)

lemma updateScreenPosition_affine:
  "containerX (updateScreenPosition s) =
     32 * vec_x (position s) - 32 * vec_y (position s) + 32
       + (if direction s = 4 \<or> direction s = 5 \<or> direction s = 6 then 30 else - 35)"
  "containerY (updateScreenPosition s) =
     16 * vec_x (position s) + 16 * vec_y (position s) - 32 * vec_z (position s)"
  by (simp_all add: updateScreenPosition_def tileToScreen_def Math_floor_def Let_def algebra_simps)

lemma walk3_trace:
  "legs_completed 0 [100, 500, 800, 1000, 1600] = 3"
  by (simp add: moveDuration_def)

lemma walk2_start:
  "isWalking (walkTo (new_avatar 0 0 0) [Vec3 1 0 0, Vec3 2 0 0] 0)"
  "currentTarget (walkTo (new_avatar 0 0 0) [Vec3 1 0 0, Vec3 2 0 0] 0) = Some (Vec3 1 0 0)"
  "currentPath (walkTo (new_avatar 0 0 0) [Vec3 1 0 0, Vec3 2 0 0] 0) = [Vec3 2 0 0]"
  "moveStartTime (walkTo (new_avatar 0 0 0) [Vec3 1 0 0, Vec3 2 0 0] 0) = 0"
  "frameCounter (walkTo (new_avatar 0 0 0) [Vec3 1 0 0, Vec3 2 0 0] 0) = 0"
  "frameUpdateCounter (walkTo (new_avatar 0 0 0) [Vec3 1 0 0, Vec3 2 0 0] 0) = 0"
  by (rule walkTo_start [OF refl])+

text \<open>
  The frame index stays below 4 and the cadence counter below the cadence constant in every
  state that the constructor, \<^verbatim>\<open>walkTo\<close>, \<^verbatim>\<open>update\<close> and \<^verbatim>\<open>stop\<close> can produce.
\<close>

lemma frame_counters_bounded:
  "frameCounter (new_avatar a b c) < 4 \<and> frameUpdateCounter (new_avatar a b c) < frameUpdateInterval"
  "frameCounter s < 4 \<and> frameUpdateCounter s < frameUpdateInterval \<Longrightarrow>
   frameCounter (walkTo s path now) < 4 \<and> frameUpdateCounter (walkTo s path now) < frameUpdateInterval"
  "frameCounter s < 4 \<and> frameUpdateCounter s < frameUpdateInterval \<Longrightarrow>
   frameCounter (update s now) < 4 \<and> frameUpdateCounter (update s now) < frameUpdateInterval"
  "frameCounter (stop s) < 4 \<and> frameUpdateCounter (stop s) < frameUpdateInterval"
proof -
  show "frameCounter (new_avatar a b c) < 4 \<and> frameUpdateCounter (new_avatar a b c) < frameUpdateInterval"
    by (simp add: new_avatar_def frameUpdateInterval_def)
  show "frameCounter (stop s) < 4 \<and> frameUpdateCounter (stop s) < frameUpdateInterval"
    by (simp add: stop_def frameUpdateInterval_def)
  assume ok: "frameCounter s < 4 \<and> frameUpdateCounter s < frameUpdateInterval"
  show "frameCounter (walkTo s path now) < 4 \<and> frameUpdateCounter (walkTo s path now) < frameUpdateInterval"
  proof (cases path)
    case Nil
    with ok show ?thesis by (simp add: walkTo_def)
  next
    case (Cons p ps)
    from walkTo_start(5,6) [OF Cons] show ?thesis
      by (simp add: frameUpdateInterval_def)
  qed
  show "frameCounter (update s now) < 4 \<and> frameUpdateCounter (update s now) < frameUpdateInterval"
  proof (cases "isWalking s \<and> currentTarget s \<noteq> None")
    case False
    with ok show ?thesis by (auto simp add: update_def split: option.splits)
  next
    case True
    then obtain t where t: "isWalking s" "currentTarget s = Some t" by auto
    show ?thesis
    proof (cases "moveDuration \<le> now - moveStartTime s")
      case fin: True
      show ?thesis
      proof (cases "currentPath s")
        case Nil
        from update_complete_last(5,6) [OF t Nil fin] show ?thesis
          by (simp add: frameUpdateInterval_def)
      next
        case (Cons n rest)
        from update_complete_more(7,8) [OF t Cons fin] show ?thesis
          by (simp add: frameUpdateInterval_def)
      qed
    next
      case False
      then have "now - moveStartTime s < moveDuration" by simp
      from update_interp(8,9) [OF t this] ok show ?thesis
        by (simp add: frameUpdateInterval_def)
    qed
  qed
qed

subsection \<open>The claims on locomotion\<close>

text \<open>
  C7: \<^verbatim>\<open>walkTo\<close> with an empty path changes nothing: every field of the state, in every
  starting state, is as it was before the call.
\<close>

theorem walkTo_empty_noop: "walkTo s [] now = s"
  by (simp add: walkTo_def)

text \<open>
  C6: \<^verbatim>\<open>stop\<close>, called in any state, leaves the avatar Idle with no pending waypoint, no
  leg target and both frame counters at 0; the continuous position is exactly what it was,
  fractional or not, and so are the heading, the leg timer, the leg start position and the
  position of the container. Stopped in the middle of a leg at \<open>(2.3, 4.7, 0)\<close>, the avatar
  stays there.
\<close>

theorem stop_effect:
  "\<not> isMoving (stop s) \<and> currentPath (stop s) = [] \<and> currentTarget (stop s) = None
   \<and> frameCounter (stop s) = 0 \<and> frameUpdateCounter (stop s) = 0
   \<and> getPosition (stop s) = getPosition s \<and> direction (stop s) = direction s
   \<and> moveStartTime (stop s) = moveStartTime s \<and> moveStartPos (stop s) = moveStartPos s
   \<and> containerX (stop s) = containerX s \<and> containerY (stop s) = containerY s
   \<and> getPosition (stop (update (walkTo (new_avatar 2 5 0) [Vec3 3 4 0] 0) 150))
       = Vec3 (23 / 10) (47 / 10) 0"
  by (simp add: stop_def isMoving_def getPosition_def mid_leg_state)

text \<open>
  C2: for a non-empty path, \<^verbatim>\<open>walkTo\<close> on a Moving avatar first rounds x and y of the
  position, each on its own, and keeps z; the leg starts at the rounded position and the
  heading is computed from it. On an Idle avatar the position is used as it is. The position
  \<open>(2.3, 4.7)\<close> is rounded to \<open>(2, 5)\<close>.
\<close>

theorem walkTo_snap_on_redirect:
  "(path \<noteq> [] \<and> isWalking s \<longrightarrow>
      position (walkTo s path now) =
        Vec3 (Math_round (vec_x (position s))) (Math_round (vec_y (position s))) (vec_z (position s))
      \<and> moveStartPos (walkTo s path now) = position (walkTo s path now)
      \<and> direction (walkTo s path now) = calculateDirection s (position (walkTo s path now)) (hd path))
   \<and> (path \<noteq> [] \<and> \<not> isWalking s \<longrightarrow>
      position (walkTo s path now) = position s
      \<and> moveStartPos (walkTo s path now) = position s
      \<and> direction (walkTo s path now) = calculateDirection s (position s) (hd path))
   \<and> Math_round (23 / 10) = 2 \<and> Math_round (47 / 10) = 5"
  using walkTo_snap [of path s now] walkTo_no_snap [of path s now]
  by (simp add: Math_round_def)

theorem walkTo_snap_on_redirect_witness:
  "[Vec3 2 6 0] \<noteq> []
   \<and> isWalking (update (walkTo (new_avatar 2 5 0) [Vec3 3 4 0] 0) 150)
   \<and> position (update (walkTo (new_avatar 2 5 0) [Vec3 3 4 0] 0) 150) = Vec3 (23 / 10) (47 / 10) 0
   \<and> moveStartPos (walkTo (update (walkTo (new_avatar 2 5 0) [Vec3 3 4 0] 0) 150) [Vec3 2 6 0] 150)
       = Vec3 2 5 0
   \<and> \<not> isWalking (new_avatar (23 / 10) (47 / 10) 0)
   \<and> moveStartPos (walkTo (new_avatar (23 / 10) (47 / 10) 0) [Vec3 2 6 0] 150)
       = Vec3 (23 / 10) (47 / 10) 0"
proof -
  have moving: "isWalking (update (walkTo (new_avatar 2 5 0) [Vec3 3 4 0] 0) 150)"
    by (rule mid_leg_state)
  have idle: "\<not> isWalking (new_avatar (23 / 10) (47 / 10) 0)"
    by (simp add: new_avatar_def)
  have at: "position (new_avatar (23 / 10) (47 / 10) 0) = Vec3 (23 / 10) (47 / 10) 0"
    by (simp add: new_avatar_def)
  show ?thesis
    using moving idle at mid_leg_state(1)
      walkTo_snap_on_redirect [of "[Vec3 2 6 0]" "update (walkTo (new_avatar 2 5 0) [Vec3 3 4 0] 0) 150" 150]
      walkTo_snap_on_redirect [of "[Vec3 2 6 0]" "new_avatar (23 / 10) (47 / 10) 0" 150]
    by simp
qed

text \<open>
  C4: \<^verbatim>\<open>calculateDirection\<close> is the heading table of the specification applied to the
  signs of the delta, and returns the current heading on a zero delta. The delta \<open>(1, -1)\<close>
  gives heading 1 (NE), the delta \<open>(-1, 0)\<close> gives heading 6 (W).
\<close>

theorem calculateDirection_headings:
  "calculateDirection s from to =
     (case spec_heading (sgn (vec_x to - vec_x from)) (sgn (vec_y to - vec_y from)) of
        Some h \<Rightarrow> h
      | None \<Rightarrow> direction s)
   \<and> calculateDirection s from (Vec3 (vec_x from + 1) (vec_y from - 1) c) = 1
   \<and> calculateDirection s from (Vec3 (vec_x from - 1) (vec_y from) c) = 6
   \<and> calculateDirection s from (Vec3 (vec_x from) (vec_y from) c) = direction s"
proof -
  have "calculateDirection s from to =
     (case spec_heading (sgn (vec_x to - vec_x from)) (sgn (vec_y to - vec_y from)) of
        Some h \<Rightarrow> h
      | None \<Rightarrow> direction s)"
    by (auto simp add: calculateDirection_def spec_heading_def Let_def sgn_if)
  then show ?thesis
    by (simp add: calculateDirection_def)
qed

text \<open>
  C8: the container position computed by \<^verbatim>\<open>updateScreenPosition\<close> through the floored
  tile and the fractional offset is the direct projection of the continuous position, with
  the horizontal offset 30 for the headings 4, 5, 6 and -35 otherwise. A step of \<open>e\<close> in x
  moves it by \<open>(32 e, 16 e)\<close>, a step of \<open>e\<close> in y by \<open>(-32 e, 16 e)\<close>, and it is continuous
  in \<open>(x, y)\<close>.
\<close>

theorem screen_position_affine:
  "(containerX (updateScreenPosition s), containerY (updateScreenPosition s)) =
     direct_projection (if direction s = 4 \<or> direction s = 5 \<or> direction s = 6 then 30 else - 35)
       (vec_x (position s)) (vec_y (position s)) (vec_z (position s))
   \<and> containerX (updateScreenPosition (s\<lparr>position := Vec3 (a + e) b c\<rparr>))
       - containerX (updateScreenPosition (s\<lparr>position := Vec3 a b c\<rparr>)) = 32 * e
   \<and> containerY (updateScreenPosition (s\<lparr>position := Vec3 (a + e) b c\<rparr>))
       - containerY (updateScreenPosition (s\<lparr>position := Vec3 a b c\<rparr>)) = 16 * e
   \<and> containerX (updateScreenPosition (s\<lparr>position := Vec3 a (b + e) c\<rparr>))
       - containerX (updateScreenPosition (s\<lparr>position := Vec3 a b c\<rparr>)) = - 32 * e
   \<and> containerY (updateScreenPosition (s\<lparr>position := Vec3 a (b + e) c\<rparr>))
       - containerY (updateScreenPosition (s\<lparr>position := Vec3 a b c\<rparr>)) = 16 * e
   \<and> continuous_on UNIV
        (\<lambda>p. (containerX (updateScreenPosition (s\<lparr>position := Vec3 (fst p) (snd p) c\<rparr>)),
              containerY (updateScreenPosition (s\<lparr>position := Vec3 (fst p) (snd p) c\<rparr>))))"
proof -
  have "continuous_on UNIV
        (\<lambda>p::real \<times> real. (32 * fst p - 32 * snd p + 32
                + (if direction s = 4 \<or> direction s = 5 \<or> direction s = 6 then 30 else - 35 :: real),
              16 * fst p + 16 * snd p - 32 * c))"
    by (intro continuous_intros)
  then show ?thesis
    by (simp add: updateScreenPosition_affine direct_projection_def algebra_simps)
qed

text \<open>
  C10: while a leg is in progress \<^verbatim>\<open>update\<close> interpolates z between the z of the leg
  start and the z of the leg target with the same progress as x and y; the snap of
  \<^verbatim>\<open>walkTo\<close> on a Moving avatar rounds x and y only, and no call of \<^verbatim>\<open>walkTo\<close> changes z.
\<close>

theorem update_interpolates_z:
  "(isWalking s \<and> currentTarget s = Some t \<and> now - moveStartTime s < moveDuration \<longrightarrow>
      vec_x (position (update s now)) =
        vec_x (moveStartPos s) + (vec_x t - vec_x (moveStartPos s)) * ((now - moveStartTime s) / moveDuration)
      \<and> vec_y (position (update s now)) =
        vec_y (moveStartPos s) + (vec_y t - vec_y (moveStartPos s)) * ((now - moveStartTime s) / moveDuration)
      \<and> vec_z (position (update s now)) =
        vec_z (moveStartPos s) + (vec_z t - vec_z (moveStartPos s)) * ((now - moveStartTime s) / moveDuration))
   \<and> (path \<noteq> [] \<and> isWalking s \<longrightarrow>
      position (walkTo s path now) =
        Vec3 (Math_round (vec_x (position s))) (Math_round (vec_y (position s))) (vec_z (position s)))
   \<and> vec_z (position (walkTo s path now)) = vec_z (position s)"
proof -
  have z: "vec_z (position (walkTo s path now)) = vec_z (position s)"
  proof (cases path)
    case Nil
    then show ?thesis by (simp add: walkTo_def)
  next
    case (Cons p ps)
    then show ?thesis by (simp add: walkTo_def Let_def)
  qed
  show ?thesis
    using update_interp(7) [of s t now] walkTo_snap(1) [of path s now] z
    by simp
qed

theorem update_interpolates_z_witness:
  "isWalking (walkTo (new_avatar 0 0 0) [Vec3 1 0 2] 0)
   \<and> currentTarget (walkTo (new_avatar 0 0 0) [Vec3 1 0 2] 0) = Some (Vec3 1 0 2)
   \<and> 250 - moveStartTime (walkTo (new_avatar 0 0 0) [Vec3 1 0 2] 0) < moveDuration
   \<and> vec_z (position (update (walkTo (new_avatar 0 0 0) [Vec3 1 0 2] 0) 250)) = 1
   \<and> [Vec3 0 0 0] \<noteq> []
   \<and> position (walkTo (update (walkTo (new_avatar 0 0 0) [Vec3 1 0 2] 0) 250) [Vec3 0 0 0] 250)
       = Vec3 1 0 1"
proof -
  have h: "isWalking (walkTo (new_avatar 0 0 0) [Vec3 1 0 2] 0)"
    "currentTarget (walkTo (new_avatar 0 0 0) [Vec3 1 0 2] 0) = Some (Vec3 1 0 2)"
    "moveStartTime (walkTo (new_avatar 0 0 0) [Vec3 1 0 2] 0) = 0"
    "moveStartPos (walkTo (new_avatar 0 0 0) [Vec3 1 0 2] 0) = Vec3 0 0 0"
    by (simp_all add: walkTo_def Let_def new_avatar_def)
  have m: "isWalking (update (walkTo (new_avatar 0 0 0) [Vec3 1 0 2] 0) 250)"
    "position (update (walkTo (new_avatar 0 0 0) [Vec3 1 0 2] 0) 250) = Vec3 (1 / 2) 0 1"
    using update_interp(1,7) [OF h(1,2), of 250] by (simp_all add: h moveDuration_def)
  show ?thesis
    using
      update_interpolates_z [of "walkTo (new_avatar 0 0 0) [Vec3 1 0 2] 0" "Vec3 1 0 2" 250 "[Vec3 0 0 0]"]
      update_interpolates_z [of "update (walkTo (new_avatar 0 0 0) [Vec3 1 0 2] 0) 250" "Vec3 1 0 2" 250 "[Vec3 0 0 0]"]
    by (simp add: h m moveDuration_def Math_round_def)
qed

text \<open>
  C1: after \<^verbatim>\<open>walkTo\<close> with three waypoints, any sequence of \<^verbatim>\<open>update\<close> calls in
  which three legs reach their duration (the first timed from the call of \<^verbatim>\<open>walkTo\<close>, each
  later one from the update that ended the leg before) leaves the avatar Idle with its
  position equal to the third waypoint. An update that ends a leg sets the position to the
  target of that leg; when a waypoint is left it becomes the new target, and the new leg
  starts at that position and at that time.
\<close>

theorem locomotion_arrival:
  "(3 \<le> legs_completed t0 nows \<longrightarrow>
      \<not> isMoving (updates (walkTo s [p1, p2, p3] t0) nows)
      \<and> getPosition (updates (walkTo s [p1, p2, p3] t0) nows) = p3)
   \<and> (isWalking a \<and> currentTarget a = Some target \<and> moveDuration \<le> now - moveStartTime a \<longrightarrow>
        position (update a now) = target
        \<and> (currentPath a = [] \<longrightarrow> \<not> isWalking (update a now))
        \<and> (\<forall>n rest. currentPath a = n # rest \<longrightarrow>
              isWalking (update a now) \<and> currentTarget (update a now) = Some n
              \<and> moveStartPos (update a now) = target \<and> moveStartTime (update a now) = now))"
proof -
  have arrive: "\<not> isMoving (updates (walkTo s [p1, p2, p3] t0) nows)
      \<and> getPosition (updates (walkTo s [p1, p2, p3] t0) nows) = p3"
    if "3 \<le> legs_completed t0 nows"
  proof -
    note w = walkTo_start [of "[p1, p2, p3]" p1 "[p2, p3]" s t0, OF refl]
    from that have "length (currentPath (walkTo s [p1, p2, p3] t0))
        < legs_completed (moveStartTime (walkTo s [p1, p2, p3] t0)) nows"
      by (simp add: w)
    from updates_arrival [OF w(1) w(2) this] show ?thesis
      by (simp add: w isMoving_def getPosition_def)
  qed
  have snap: "position (update a now) = target
        \<and> (currentPath a = [] \<longrightarrow> \<not> isWalking (update a now))
        \<and> (\<forall>n rest. currentPath a = n # rest \<longrightarrow>
              isWalking (update a now) \<and> currentTarget (update a now) = Some n
              \<and> moveStartPos (update a now) = target \<and> moveStartTime (update a now) = now)"
    if "isWalking a" "currentTarget a = Some target" "moveDuration \<le> now - moveStartTime a"
  proof (cases "currentPath a")
    case Nil
    from update_complete_last [OF that(1,2) Nil that(3)] show ?thesis
      using Nil by simp
  next
    case (Cons n rest)
    from update_complete_more [OF that(1,2) Cons that(3)] show ?thesis
      using Cons by simp
  qed
  from arrive snap show ?thesis by blast
qed

theorem locomotion_arrival_witness:
  "3 \<le> legs_completed 0 [100, 500, 800, 1000, 1600]
   \<and> \<not> isMoving (updates (walkTo (new_avatar 0 0 0) [Vec3 1 0 0, Vec3 2 0 0, Vec3 2 1 0] 0)
                  [100, 500, 800, 1000, 1600])
   \<and> getPosition (updates (walkTo (new_avatar 0 0 0) [Vec3 1 0 0, Vec3 2 0 0, Vec3 2 1 0] 0)
                  [100, 500, 800, 1000, 1600]) = Vec3 2 1 0
   \<and> isWalking (walkTo (new_avatar 0 0 0) [Vec3 1 0 0, Vec3 2 0 0, Vec3 2 1 0] 0)
   \<and> currentTarget (walkTo (new_avatar 0 0 0) [Vec3 1 0 0, Vec3 2 0 0, Vec3 2 1 0] 0)
       = Some (Vec3 1 0 0)
   \<and> currentPath (walkTo (new_avatar 0 0 0) [Vec3 1 0 0, Vec3 2 0 0, Vec3 2 1 0] 0)
       = [Vec3 2 0 0, Vec3 2 1 0]
   \<and> moveDuration \<le> 500 - moveStartTime (walkTo (new_avatar 0 0 0) [Vec3 1 0 0, Vec3 2 0 0, Vec3 2 1 0] 0)
   \<and> position (update (walkTo (new_avatar 0 0 0) [Vec3 1 0 0, Vec3 2 0 0, Vec3 2 1 0] 0) 500)
       = Vec3 1 0 0
   \<and> moveStartPos (update (walkTo (new_avatar 0 0 0) [Vec3 1 0 0, Vec3 2 0 0, Vec3 2 1 0] 0) 500)
       = Vec3 1 0 0
   \<and> currentTarget (update (walkTo (new_avatar 0 0 0) [Vec3 1 0 0, Vec3 2 0 0, Vec3 2 1 0] 0) 500)
       = Some (Vec3 2 0 0)"
proof -
  note w = walkTo_start [of "[Vec3 1 0 0, Vec3 2 0 0, Vec3 2 1 0]" "Vec3 1 0 0"
      "[Vec3 2 0 0, Vec3 2 1 0]" "new_avatar 0 0 0" 0, OF refl]
  have h: "3 \<le> legs_completed 0 [100, 500, 800, 1000, 1600]"
    by (simp only: walk3_trace)
  have d: "moveDuration \<le> 500 - moveStartTime (walkTo (new_avatar 0 0 0) [Vec3 1 0 0, Vec3 2 0 0, Vec3 2 1 0] 0)"
    by (simp add: w moveDuration_def)
  show ?thesis
    using h d
      locomotion_arrival [of 0 "[100, 500, 800, 1000, 1600]" "new_avatar 0 0 0"
        "Vec3 1 0 0" "Vec3 2 0 0" "Vec3 2 1 0"
        "walkTo (new_avatar 0 0 0) [Vec3 1 0 0, Vec3 2 0 0, Vec3 2 1 0] 0" "Vec3 1 0 0" 500]
    by (simp add: w moveDuration_def)
qed

text \<open>
  C3, as stated, does not hold: three \<^verbatim>\<open>update\<close> calls made while the avatar is Moving
  need not advance the frame index. With two waypoints and updates at 100, 200 and 600, the
  third call ends the first leg and sets both counters back to 0; the avatar is Moving
  before and after each call and the frame index is 0 throughout.
\<close>

theorem frame_cadence_counterexample:
  "isMoving (walkTo (new_avatar 0 0 0) [Vec3 1 0 0, Vec3 2 0 0] 0)
   \<and> frameCounter (walkTo (new_avatar 0 0 0) [Vec3 1 0 0, Vec3 2 0 0] 0) = 0
   \<and> isMoving (updates (walkTo (new_avatar 0 0 0) [Vec3 1 0 0, Vec3 2 0 0] 0) [100])
   \<and> frameCounter (updates (walkTo (new_avatar 0 0 0) [Vec3 1 0 0, Vec3 2 0 0] 0) [100]) = 0
   \<and> isMoving (updates (walkTo (new_avatar 0 0 0) [Vec3 1 0 0, Vec3 2 0 0] 0) [100, 200])
   \<and> frameCounter (updates (walkTo (new_avatar 0 0 0) [Vec3 1 0 0, Vec3 2 0 0] 0) [100, 200]) = 0
   \<and> isMoving (updates (walkTo (new_avatar 0 0 0) [Vec3 1 0 0, Vec3 2 0 0] 0) [100, 200, 600])
   \<and> frameCounter (updates (walkTo (new_avatar 0 0 0) [Vec3 1 0 0, Vec3 2 0 0] 0) [100, 200, 600]) = 0"
proof -
  note w = walk2_start
  have o1: "100 - moveStartTime (walkTo (new_avatar 0 0 0) [Vec3 1 0 0, Vec3 2 0 0] 0) < moveDuration"
    by (simp add: w moveDuration_def)
  note u1 = update_interp [OF w(1) w(2) o1]
  have o2: "200 - moveStartTime (update (walkTo (new_avatar 0 0 0) [Vec3 1 0 0, Vec3 2 0 0] 0) 100) < moveDuration"
    by (simp add: u1 w moveDuration_def)
  note u2 = update_interp [OF u1(1) u1(2) o2]
  have p2: "currentPath (update (update (walkTo (new_avatar 0 0 0) [Vec3 1 0 0, Vec3 2 0 0] 0) 100) 200) = [Vec3 2 0 0]"
    by (simp add: u2 u1 w)
  have o3: "moveDuration \<le> 600 - moveStartTime (update (update (walkTo (new_avatar 0 0 0) [Vec3 1 0 0, Vec3 2 0 0] 0) 100) 200)"
    by (simp add: u2 u1 w moveDuration_def)
  note u3 = update_complete_more [OF u2(1) u2(2) p2 o3]
  show ?thesis
    by (simp add: isMoving_def w u1 u2 u3 frameUpdateInterval_def)
qed

text \<open>
  C3, amended: while a leg is in progress, that is over \<^verbatim>\<open>update\<close> calls that do not
  reach the leg duration, the cadence counter counts the calls modulo 3 and the frame index
  advances by one, modulo 4, at every third call; an \<^verbatim>\<open>update\<close> call that ends a leg sets
  the frame index and the cadence counter to 0; an \<^verbatim>\<open>update\<close> call on an Idle avatar
  changes nothing.
\<close>

theorem frame_cadence_within_leg:
  "(isWalking s \<and> currentTarget s = Some t \<and> frameUpdateCounter s < frameUpdateInterval
      \<and> frameCounter s < 4 \<and> (\<forall>now\<in>set nows. now - moveStartTime s < moveDuration) \<longrightarrow>
      frameUpdateCounter (updates s nows) = (frameUpdateCounter s + length nows) mod 3
      \<and> frameCounter (updates s nows) =
          (frameCounter s + (frameUpdateCounter s + length nows) div 3) mod 4)
   \<and> (isWalking s \<and> currentTarget s = Some t \<and> moveDuration \<le> now - moveStartTime s \<longrightarrow>
        frameCounter (update s now) = 0 \<and> frameUpdateCounter (update s now) = 0)
   \<and> (\<not> isMoving s \<longrightarrow> update s now = s)"
proof -
  have reset: "frameCounter (update s now) = 0 \<and> frameUpdateCounter (update s now) = 0"
    if "isWalking s" "currentTarget s = Some t" "moveDuration \<le> now - moveStartTime s"
  proof (cases "currentPath s")
    case Nil
    from update_complete_last [OF that(1,2) Nil that(3)] show ?thesis by simp
  next
    case (Cons n rest)
    from update_complete_more [OF that(1,2) Cons that(3)] show ?thesis by simp
  qed
  show ?thesis
    using updates_cadence [of s t nows] reset update_idle [of s now]
    by (simp add: isMoving_def)
qed

theorem frame_cadence_within_leg_witness:
  "isWalking (walkTo (new_avatar 0 0 0) [Vec3 1 0 0, Vec3 2 0 0] 0)
   \<and> currentTarget (walkTo (new_avatar 0 0 0) [Vec3 1 0 0, Vec3 2 0 0] 0) = Some (Vec3 1 0 0)
   \<and> frameUpdateCounter (walkTo (new_avatar 0 0 0) [Vec3 1 0 0, Vec3 2 0 0] 0) < frameUpdateInterval
   \<and> frameCounter (walkTo (new_avatar 0 0 0) [Vec3 1 0 0, Vec3 2 0 0] 0) < 4
   \<and> frameCounter (updates (walkTo (new_avatar 0 0 0) [Vec3 1 0 0, Vec3 2 0 0] 0) [100, 200, 300]) = 1
   \<and> frameCounter (updates (walkTo (new_avatar 0 0 0) [Vec3 1 0 0, Vec3 2 0 0] 0)
        [10, 20, 30, 40, 50, 60, 70, 80, 90, 100, 110, 120, 130, 140]) = 0
   \<and> frameUpdateCounter (updates (walkTo (new_avatar 0 0 0) [Vec3 1 0 0, Vec3 2 0 0] 0)
        [10, 20, 30, 40, 50, 60, 70, 80, 90, 100, 110, 120, 130, 140]) = 2
   \<and> moveDuration \<le> 600 - moveStartTime (walkTo (new_avatar 0 0 0) [Vec3 1 0 0, Vec3 2 0 0] 0)
   \<and> frameUpdateCounter (update (walkTo (new_avatar 0 0 0) [Vec3 1 0 0, Vec3 2 0 0] 0) 600) = 0
   \<and> \<not> isMoving (new_avatar 0 0 0)
   \<and> update (new_avatar 0 0 0) 600 = new_avatar 0 0 0"
proof -
  note w = walk2_start
  have idle: "\<not> isMoving (new_avatar 0 0 0)"
    by (simp add: isMoving_def new_avatar_def)
  show ?thesis
    using idle
      frame_cadence_within_leg [of "walkTo (new_avatar 0 0 0) [Vec3 1 0 0, Vec3 2 0 0] 0" "Vec3 1 0 0"
        "[100, 200, 300]" 600]
      frame_cadence_within_leg [of "walkTo (new_avatar 0 0 0) [Vec3 1 0 0, Vec3 2 0 0] 0" "Vec3 1 0 0"
        "[10, 20, 30, 40, 50, 60, 70, 80, 90, 100, 110, 120, 130, 140]" 600]
      frame_cadence_within_leg [of "new_avatar 0 0 0" "Vec3 1 0 0" "[]" 600]
    by (simp add: w moveDuration_def frameUpdateInterval_def)
qed

subsection \<open>The steps of the floorplan editor\<close>

lemma tileAt_setTile:
  "tileAt (setTile rd gx gy t) x y =
     (if x = gx \<and> y = gy \<and> tileAt rd gx gy \<noteq> None then Some t else tileAt rd x y)"
  by (auto simp add: tileAt_def setTile_def nth_list_update)

lemma tileAt_doorTile_update [simp]: "tileAt (rd\<lparr>doorTile := d\<rparr>) x y = tileAt rd x y"
  by (simp add: tileAt_def)

lemma doorTile_setTile [simp]: "doorTile (setTile rd gx gy t) = doorTile rd"
  by (simp add: setTile_def)

lemma maxX_setTile [simp]: "maxX (setTile rd gx gy t) = maxX rd" "maxY (setTile rd gx gy t) = maxY rd"
  by (simp_all add: setTile_def)

lemma heights_ok_setTile:
  assumes "heights_ok rd" "0 \<le> height t" "height t \<le> 9"
  shows "heights_ok (setTile rd gx gy t)"
proof (cases "gy < length (tiles rd)")
  case True
  then have row: "tiles rd ! gy \<in> set (tiles rd)" by simp
  have "\<forall>u\<in>set ((tiles rd ! gy)[gx := t]). 0 \<le> height u \<and> height u \<le> 9"
    using assms row set_update_subset_insert [of "tiles rd ! gy" gx t]
    by (auto simp add: heights_ok_def list_all_iff)
  then show ?thesis
    using assms(1) set_update_subset_insert [of "tiles rd" gy "(tiles rd ! gy)[gx := t]"]
    by (auto simp add: heights_ok_def list_all_iff setTile_def)
next
  case False
  then show ?thesis using assms(1) by (simp add: heights_ok_def setTile_def list_update_beyond)
qed

lemma heights_ok_tileAt:
  "heights_ok rd \<Longrightarrow> tileAt rd gx gy = Some t \<Longrightarrow> 0 \<le> height t \<and> height t \<le> 9"
  by (auto simp add: heights_ok_def tileAt_def list_all_length split: if_splits)

lemma onClick_heights_ok:
  assumes "heights_ok (roomData s)" "0 \<le> currentHeight (config s)" "currentHeight (config s) \<le> 9"
    "onClick s gridX gridY = Inr s'"
  shows "heights_ok (roomData s')"
proof -
  from assms(4) obtain tile where tile: "tileAt (roomData s) gridX gridY = Some tile"
    by (auto simp add: onClick_def split: option.splits)
  note h = heights_ok_tileAt [OF assms(1) tile]
  show ?thesis
  proof (cases "currentAction (config s)")
    case SET
    with assms tile show ?thesis
      by (auto simp add: onClick_def intro!: heights_ok_setTile)
  next
    case UNSET
    with assms tile show ?thesis
      by (auto simp add: onClick_def intro!: heights_ok_setTile)
  next
    case UP
    with assms tile h show ?thesis
      by (auto simp add: onClick_def intro!: heights_ok_setTile split: if_splits)
  next
    case DOWN
    with assms tile h show ?thesis
      by (auto simp add: onClick_def intro!: heights_ok_setTile split: if_splits)
  next
    case DOOR
    with assms tile show ?thesis
      by (auto simp add: onClick_def heights_ok_def split: if_splits)
  qed
qed

lemma onClick_UP:
  assumes "currentAction (config s) = UP" "tileAt (roomData s) gridX gridY = Some tile"
  shows "\<exists>s'. onClick s gridX gridY = Inr s' \<and> tileAt (roomData s') gridX gridY =
           Some (if walkable tile \<and> height tile < 9 then tile\<lparr>height := height tile + 1\<rparr> else tile)"
  using assms by (simp add: onClick_def tileAt_setTile)

lemma onClick_DOWN:
  assumes "currentAction (config s) = DOWN" "tileAt (roomData s) gridX gridY = Some tile"
  shows "\<exists>s'. onClick s gridX gridY = Inr s' \<and> tileAt (roomData s') gridX gridY =
           Some (if walkable tile \<and> height tile > 0 then tile\<lparr>height := height tile - 1\<rparr> else tile)"
  using assms by (simp add: onClick_def tileAt_setTile)

lemma onClick_total:
  "(\<exists>tile. tileAt (roomData s) gridX gridY = Some tile) = (\<exists>s'. onClick s gridX gridY = Inr s')"
  by (auto simp add: onClick_def split: option.splits)

lemma MAX_TILES_pos: "0 < MAX_TILES"
  by (simp add: MAX_TILES_def)

lemma tileAt_createEmptyRoom:
  "gx < MAX_TILES \<Longrightarrow> gy < MAX_TILES \<Longrightarrow>
   tileAt createEmptyRoom gx gy =
     Some \<lparr>tile_x = gx, tile_y = gy, height = 0, isBlocked = False, walkable = False\<rparr>"
  by (simp add: tileAt_def createEmptyRoom_def)

lemma heights_ok_createEmptyRoom: "heights_ok createEmptyRoom"
  by (simp add: heights_ok_def createEmptyRoom_def list_all_iff)

lemma new_scene_fields:
  "roomData new_scene = createEmptyRoom" "lastUsedTile new_scene = (- 1, - 1)"
  "doorTile createEmptyRoom = None" "currentHeight (config new_scene) = 0"
  by (simp_all add: new_scene_def createEmptyRoom_def)

lemma updateConfig_fields [simp]:
  "roomData (updateConfig s a h d) = roomData s"
  "currentAction (config (updateConfig s (Some act) h d)) = act"
  "currentHeight (config (updateConfig s a (Some v) d)) = v"
  "currentHeight (config (updateConfig s a None d)) = currentHeight (config s)"
  by (simp_all add: updateConfig_def)

lemma processTileAction_origin:
  "processTileAction s 450 150 =
     (if lastUsedTile s = (0, 0) then Inr s else onClick (s\<lparr>lastUsedTile := (0, 0)\<rparr>) 0 0)"
  by (simp add: processTileAction_def offsetX_def offsetY_def Let_def)

lemma press_origin:
  assumes "lastUsedTile s = (- 1, - 1)"
  shows "press (Inr s) a 450 150 =
     (case onClick (updateConfig s (Some a) None None\<lparr>isHolding := True, lastUsedTile := (0, 0)\<rparr>) 0 0 of
        Inl e \<Rightarrow> Inl e
      | Inr s' \<Rightarrow> Inr (handlePointerUp s'))"
  using assms
  by (simp add: press_def handlePointerDown_def processTileAction_origin updateConfig_def)

lemma press_set_origin:
  "\<exists>s. press (Inr new_scene) SET 450 150 = Inr s \<and> lastUsedTile s = (- 1, - 1)
     \<and> doorTile (roomData s) = None
     \<and> tileAt (roomData s) 0 0 =
         Some \<lparr>tile_x = 0, tile_y = 0, height = 0, isBlocked = False, walkable = True\<rparr>"
  by (simp add: press_origin onClick_def updateConfig_def new_scene_fields
        tileAt_createEmptyRoom MAX_TILES_pos tileAt_setTile handlePointerUp_def)

lemma press_origin_effect:
  assumes "lastUsedTile s = (- 1, - 1)" "tileAt (roomData s) 0 0 = Some tile"
  shows "\<exists>s'. press (Inr s) a 450 150 = Inr s' \<and> lastUsedTile s' = (- 1, - 1)
     \<and> doorTile (roomData s') = (if a = DOOR \<and> walkable tile then Some (0, 0) else doorTile (roomData s))
     \<and> tileAt (roomData s') 0 0 =
         Some (case a of SET \<Rightarrow> tile\<lparr>walkable := True, height := currentHeight (config s)\<rparr>
               | UNSET \<Rightarrow> tile\<lparr>walkable := False, height := 0\<rparr>
               | UP \<Rightarrow> if walkable tile \<and> height tile < 9 then tile\<lparr>height := height tile + 1\<rparr> else tile
               | DOWN \<Rightarrow> if walkable tile \<and> height tile > 0 then tile\<lparr>height := height tile - 1\<rparr> else tile
               | DOOR \<Rightarrow> tile)"
  using assms
  by (cases a) (simp_all add: press_origin onClick_def updateConfig_def tileAt_setTile handlePointerUp_def)

subsection \<open>The claims on the floorplan editor\<close>

text \<open>
  C9: when every tile has a height from 0 to 9 and the configured height is from 0 to 9,
  every tile has a height from 0 to 9 after \<^verbatim>\<open>onClick\<close>, whatever the tool and the
  coordinate. \<^verbatim>\<open>onClick\<close> returns exactly when the coordinate is a tile of the grid. With
  the tool UP the height of the tile grows by one when the tile is walkable and lower than 9
  and is unchanged otherwise; with the tool DOWN it shrinks by one when the tile is walkable
  and higher than 0 and is unchanged otherwise.
\<close>

theorem onClick_heights_in_range:
  "(heights_ok (roomData s) \<and> 0 \<le> currentHeight (config s) \<and> currentHeight (config s) \<le> 9
      \<and> onClick s gridX gridY = Inr s' \<longrightarrow> heights_ok (roomData s'))
   \<and> ((\<exists>t. tileAt (roomData s) gridX gridY = Some t) = (\<exists>r. onClick s gridX gridY = Inr r))
   \<and> (currentAction (config s) = UP \<and> tileAt (roomData s) gridX gridY = Some tile \<longrightarrow>
        (\<exists>r. onClick s gridX gridY = Inr r \<and> tileAt (roomData r) gridX gridY =
           Some (if walkable tile \<and> height tile < 9 then tile\<lparr>height := height tile + 1\<rparr> else tile)))
   \<and> (currentAction (config s) = DOWN \<and> tileAt (roomData s) gridX gridY = Some tile \<longrightarrow>
        (\<exists>r. onClick s gridX gridY = Inr r \<and> tileAt (roomData r) gridX gridY =
           Some (if walkable tile \<and> height tile > 0 then tile\<lparr>height := height tile - 1\<rparr> else tile)))"
  using onClick_heights_ok [of s gridX gridY s'] onClick_total [of s gridX gridY]
    onClick_UP [of s gridX gridY tile] onClick_DOWN [of s gridX gridY tile]
  by blast

theorem onClick_heights_in_range_witness:
  "\<exists>s1 s2 s3.
     heights_ok (roomData (updateConfig new_scene (Some SET) (Some 9) None))
     \<and> 0 \<le> currentHeight (config (updateConfig new_scene (Some SET) (Some 9) None))
     \<and> currentHeight (config (updateConfig new_scene (Some SET) (Some 9) None)) \<le> 9
     \<and> onClick (updateConfig new_scene (Some SET) (Some 9) None) 0 0 = Inr s1
     \<and> heights_ok (roomData s1)
     \<and> tileAt (roomData s1) 0 0 =
          Some \<lparr>tile_x = 0, tile_y = 0, height = 9, isBlocked = False, walkable = True\<rparr>
     \<and> currentAction (config (updateConfig s1 (Some UP) None None)) = UP
     \<and> onClick (updateConfig s1 (Some UP) None None) 0 0 = Inr s2
     \<and> tileAt (roomData s2) 0 0 =
          Some \<lparr>tile_x = 0, tile_y = 0, height = 9, isBlocked = False, walkable = True\<rparr>
     \<and> currentAction (config (updateConfig s2 (Some DOWN) None None)) = DOWN
     \<and> onClick (updateConfig s2 (Some DOWN) None None) 0 0 = Inr s3
     \<and> tileAt (roomData s3) 0 0 =
          Some \<lparr>tile_x = 0, tile_y = 0, height = 8, isBlocked = False, walkable = True\<rparr>"
proof -
  let ?s0 = "updateConfig new_scene (Some SET) (Some 9) None"
  let ?t9 = "\<lparr>tile_x = 0, tile_y = 0, height = 9, isBlocked = False, walkable = True\<rparr>"
  have h0: "heights_ok (roomData ?s0)"
    by (simp add: new_scene_fields heights_ok_createEmptyRoom)
  have c0: "0 \<le> currentHeight (config ?s0)" "currentHeight (config ?s0) \<le> 9"
    by simp_all
  have t0: "tileAt (roomData ?s0) 0 0 =
      Some \<lparr>tile_x = 0, tile_y = 0, height = 0, isBlocked = False, walkable = False\<rparr>"
    by (simp add: new_scene_fields tileAt_createEmptyRoom MAX_TILES_pos)
  have s1: "onClick ?s0 0 0 = Inr (?s0\<lparr>roomData := setTile (roomData ?s0) 0 0 ?t9\<rparr>)"
    using t0 by (simp add: onClick_def)
  define s1 where "s1 = ?s0\<lparr>roomData := setTile (roomData ?s0) 0 0 ?t9\<rparr>"
  have r1: "onClick ?s0 0 0 = Inr s1"
    by (simp only: s1 s1_def)
  have t1: "tileAt (roomData s1) 0 0 = Some ?t9"
    using t0 by (simp add: s1_def tileAt_setTile)
  from onClick_heights_in_range [of ?s0 0 0 s1] h0 c0 r1
  have h1: "heights_ok (roomData s1)" by blast
  have a1: "currentAction (config (updateConfig s1 (Some UP) None None)) = UP" by simp
  from onClick_heights_in_range [of "updateConfig s1 (Some UP) None None" 0 0 _ ?t9] a1 t1
  obtain s2 where r2: "onClick (updateConfig s1 (Some UP) None None) 0 0 = Inr s2"
    and t2: "tileAt (roomData s2) 0 0 = Some ?t9"
    by auto
  have a2: "currentAction (config (updateConfig s2 (Some DOWN) None None)) = DOWN" by simp
  from onClick_heights_in_range [of "updateConfig s2 (Some DOWN) None None" 0 0 _ ?t9] a2 t2
  obtain s3 where r3: "onClick (updateConfig s2 (Some DOWN) None None) 0 0 = Inr s3"
    and t3: "tileAt (roomData s3) 0 0 =
        Some \<lparr>tile_x = 0, tile_y = 0, height = 8, isBlocked = False, walkable = True\<rparr>"
    by auto
  from h0 c0 r1 h1 t1 a1 r2 t2 a2 r3 t3 show ?thesis
    by blast
qed

text \<open>
  The tools SET, UP, DOWN and DOOR keep the door on a walkable tile, and so does UNSET on
  any tile but the door tile.
\<close>

lemma onClick_door_ok:
  assumes "door_ok (roomData s)" "onClick s gridX gridY = Inr s'"
    "currentAction (config s) \<noteq> UNSET \<or> doorTile (roomData s) \<noteq> Some (gridX, gridY)"
  shows "door_ok (roomData s')"
proof -
  from assms(2) obtain tile where tile: "tileAt (roomData s) gridX gridY = Some tile"
    by (auto simp add: onClick_def split: option.splits)
  show ?thesis
  proof (cases "currentAction (config s)")
    case SET
    with assms tile show ?thesis
      by (auto simp add: onClick_def door_ok_def tileAt_setTile split: option.splits if_splits)
  next
    case UNSET
    with assms tile show ?thesis
      by (auto simp add: onClick_def door_ok_def tileAt_setTile split: option.splits if_splits)
  next
    case UP
    with assms tile show ?thesis
      by (auto simp add: onClick_def door_ok_def tileAt_setTile split: option.splits if_splits)
  next
    case DOWN
    with assms tile show ?thesis
      by (auto simp add: onClick_def door_ok_def tileAt_setTile split: option.splits if_splits)
  next
    case DOOR
    with assms tile show ?thesis
      by (auto simp add: onClick_def door_ok_def split: option.splits if_splits)
  qed
qed

text \<open>
  C5: UNSET on the door tile breaks the invariant. In a new editor, the gestures SET, DOOR
  and UNSET at the tile \<open>(0, 0)\<close> (the canvas point \<open>(450, 150)\<close>) leave the door at
  \<open>(0, 0)\<close> on a tile that is no longer walkable; after the first two gestures the door is
  on a walkable tile.
\<close>

theorem unset_keeps_door_tile:
  "(case press (press (Inr new_scene) SET 450 150) DOOR 450 150 of
      Inl e \<Rightarrow> False
    | Inr s \<Rightarrow> doorTile (roomData s) = Some (0, 0) \<and> door_ok (roomData s))
   \<and> (case press (press (press (Inr new_scene) SET 450 150) DOOR 450 150) UNSET 450 150 of
      Inl e \<Rightarrow> False
    | Inr s \<Rightarrow> doorTile (roomData s) = Some (0, 0)
               \<and> map_option walkable (tileAt (roomData s) 0 0) = Some False
               \<and> \<not> door_ok (roomData s))"
proof -
  from press_set_origin obtain s1 where s1: "press (Inr new_scene) SET 450 150 = Inr s1"
    "lastUsedTile s1 = (- 1, - 1)" "doorTile (roomData s1) = None"
    "tileAt (roomData s1) 0 0 =
         Some \<lparr>tile_x = 0, tile_y = 0, height = 0, isBlocked = False, walkable = True\<rparr>"
    by blast
  from press_origin_effect [OF s1(2) s1(4), of DOOR] obtain s2 where s2: "press (Inr s1) DOOR 450 150 = Inr s2"
    "lastUsedTile s2 = (- 1, - 1)" "doorTile (roomData s2) = Some (0, 0)"
    "tileAt (roomData s2) 0 0 =
         Some \<lparr>tile_x = 0, tile_y = 0, height = 0, isBlocked = False, walkable = True\<rparr>"
    by auto
  from press_origin_effect [OF s2(2) s2(4), of UNSET] obtain s3 where s3: "press (Inr s2) UNSET 450 150 = Inr s3"
    "doorTile (roomData s3) = Some (0, 0)"
    "tileAt (roomData s3) 0 0 =
         Some \<lparr>tile_x = 0, tile_y = 0, height = 0, isBlocked = False, walkable = False\<rparr>"
    using s2(3) by auto
  show ?thesis
    by (simp add: s1 s2 s3 door_ok_def)
qed

end
